theory Spec2Isabelle
  imports Main "HOL-Library.Sublist"
begin

section \<open>JavaScript values used by the two managers\<close>

text \<open>
  Strings are sequences of code units. The strings that the managers hold are modelled
  with the code units below 256, one \<^typ>\<open>char\<close> each, read as Latin-1.
  \<open>String.prototype.trim\<close> removes white space and line terminators from both ends; below
  256 these are the code units 9 to 13, 32 and 160.
\<close>

definition isWhiteSpace :: "char \<Rightarrow> bool" where
  "isWhiteSpace c = (of_char c \<in> {9, 10, 11, 12, 13, 32, 160 :: nat})"

definition trim :: "string \<Rightarrow> string" where
  "trim s = rev (dropWhile isWhiteSpace (rev (dropWhile isWhiteSpace s)))"

text \<open>
  The search of the posts lower-cases its texts, and \<open>String.prototype.toLowerCase\<close> is
  not a map of single code units: a capital sigma becomes the final small sigma or the
  other one after what stands around it (the condition \<open>Final_Sigma\<close> of the Unicode
  standard). So the search is modelled on strings of UTF-16 code units, each a natural
  number. The model of \<open>toLowerCase\<close> covers Basic Latin, Latin-1 (the code units below
  256) and the Greek letters U+0391 to U+03A9 and U+03B1 to U+03C9; it leaves every other
  code unit as it is, and no property below is about a string with such a code unit.
  \<open>units\<close> reads a string of the managers as its code units.
\<close>

type_synonym utf16 = "nat list"

definition units :: "string \<Rightarrow> utf16" where
  "units s = map of_char s"

text \<open>
  The lower case of a code unit that does not depend on its place: \<open>A\<close> to \<open>Z\<close>
  (65 to 90), the Latin-1 capitals (192 to 222, the multiplication sign 215 apart) and the
  Greek capitals (913 to 937; 930 is no letter) have their small letter 32 above.
\<close>

definition toLowerCase_unit :: "nat \<Rightarrow> nat" where
  "toLowerCase_unit u =
     (if (65 \<le> u \<and> u \<le> 90) \<or> (192 \<le> u \<and> u \<le> 222 \<and> u \<noteq> 215) \<or>
         (913 \<le> u \<and> u \<le> 937 \<and> u \<noteq> 930)
      then u + 32 else u)"

text \<open>
  The cased letters and the case-ignorable characters among the code units covered: the
  letters of the three alphabets with the ordinal indicators 170 and 186 and the micro
  sign 181; and apostrophe, full stop, colon, circumflex, grave accent, diaeresis, soft
  hyphen, macron, acute accent, middle dot and cedilla.
\<close>

definition cased :: "nat \<Rightarrow> bool" where
  "cased u =
     ((65 \<le> u \<and> u \<le> 90) \<or> (97 \<le> u \<and> u \<le> 122) \<or> u = 170 \<or> u = 181 \<or> u = 186 \<or>
      (192 \<le> u \<and> u \<le> 214) \<or> (216 \<le> u \<and> u \<le> 246) \<or> (248 \<le> u \<and> u \<le> 255) \<or>
      (913 \<le> u \<and> u \<le> 929) \<or> (931 \<le> u \<and> u \<le> 937) \<or> (945 \<le> u \<and> u \<le> 969))"

definition caseIgnorable :: "nat \<Rightarrow> bool" where
  "caseIgnorable u = (u \<in> {39, 46, 58, 94, 96, 168, 173, 175, 180, 183, 184})"

text \<open>
  \<open>Final_Sigma\<close>: before the sigma, going back over case-ignorable characters, stands a
  cased letter; and after it, going on over case-ignorable characters, stands none.
\<close>

definition Final_Sigma :: "utf16 \<Rightarrow> utf16 \<Rightarrow> bool" where
  "Final_Sigma before after =
     ((case dropWhile caseIgnorable (rev before) of [] \<Rightarrow> False | c # cs \<Rightarrow> cased c) \<and>
      \<not> (case dropWhile caseIgnorable after of [] \<Rightarrow> False | c # cs \<Rightarrow> cased c))"

text \<open>
  \<open>toLowerCase\<close>, one code unit after the other with the code units before it and after
  it in the string: the capital sigma 931 becomes the final sigma 962 or the sigma 963.
\<close>

fun toLowerCase_from :: "utf16 \<Rightarrow> utf16 \<Rightarrow> utf16" where
  "toLowerCase_from before [] = []"
| "toLowerCase_from before (u # after) =
     (if u = 931 then (if Final_Sigma before after then 962 else 963) else toLowerCase_unit u)
       # toLowerCase_from (before @ [u]) after"

definition toLowerCase :: "utf16 \<Rightarrow> utf16" where
  "toLowerCase s = toLowerCase_from [] s"

text \<open>\<open>s.includes(q)\<close>: \<open>q\<close> occurs in \<open>s\<close> at some position.\<close>

fun includes_str :: "'a list \<Rightarrow> 'a list \<Rightarrow> bool" where
  "includes_str [] q = (q = [])"
| "includes_str (c # s) q = (take (length q) (c # s) = q \<or> includes_str s q)"

text \<open>\<open>s.split(sep)\<close> for a separator of one code unit; the empty string gives \<open>['']\<close>.\<close>

fun split :: "char \<Rightarrow> string \<Rightarrow> string list" where
  "split sep [] = [] # []"
| "split sep (c # s) =
     (if c = sep then [] # split sep s
      else (case split sep s of [] \<Rightarrow> [c] # [] | p # ps \<Rightarrow> (c # p) # ps))"

text \<open>\<open>Number.prototype.toString()\<close> on a non-negative integer: its decimal digits.\<close>

definition digit :: "nat \<Rightarrow> char" where
  "digit d = char_of (48 + d)"

function toString :: "nat \<Rightarrow> string" where
  "toString n = (if n < 10 then [digit n] else toString (n div 10) @ [digit (n mod 10)])"
  by pat_completeness auto
termination
  by (relation "measure (\<lambda>n. n)") auto

declare toString.simps [simp del]

text \<open>\<open>Array.prototype.findIndex\<close>; \<open>None\<close> is the result \<open>-1\<close>.\<close>

fun findIndex :: "('a \<Rightarrow> bool) \<Rightarrow> 'a list \<Rightarrow> nat option" where
  "findIndex P [] = None"
| "findIndex P (x # xs) = (if P x then Some 0 else map_option Suc (findIndex P xs))"

text \<open>\<open>xs.splice(i, 1)\<close> with \<open>i\<close> an index of \<open>xs\<close>.\<close>

definition splice1 :: "nat \<Rightarrow> 'a list \<Rightarrow> 'a list" where
  "splice1 i xs = take i xs @ drop (Suc i) xs"

text \<open>
  How a call ends: with the value \<open>undefined\<close> (a body that has no \<open>return\<close> with a
  value), with a value, or with an exception that leaves the method.
\<close>

datatype js_error = SyntaxError | QuotaExceededError | TypeError

datatype 'r completion = Undefined | Value 'r | Threw js_error

definition and_then ::
  "'r completion \<times> 's \<Rightarrow> ('s \<Rightarrow> 'r completion \<times> 's) \<Rightarrow> 'r completion \<times> 's" where
  "and_then r k = (case fst r of Threw e \<Rightarrow> r | _ \<Rightarrow> k (snd r))"

section \<open>Local storage\<close>

text \<open>
  One key of \<open>localStorage\<close>. The string under the key is the JSON text of an array of
  records, kept as the array it encodes, or the JSON text of a value that is not an array
  (\<open>null\<close>, a number, a string, a boolean, an object), or a text that \<open>JSON.parse\<close>
  rejects. \<open>setItem\<close> throws when the store refuses the write (quota exceeded, storage
  disabled). Arrays with elements that are not records of the manager are outside the
  model.
\<close>

datatype 'a stored = Malformed string | Encoded "'a list" | NonArray string

text \<open>What \<open>JSON.parse\<close> returns: an array of records, or another value.\<close>

datatype 'a json_value = Array "'a list" | Other

record 'a localStorage =
  item :: "'a stored option"
  writable :: bool

definition getItem :: "'a localStorage \<Rightarrow> 'a stored option" where
  "getItem ls = item ls"

definition setItem :: "'a stored \<Rightarrow> 'a localStorage \<Rightarrow> js_error + 'a localStorage" where
  "setItem v ls = (if writable ls then Inr (ls\<lparr>item := Some v\<rparr>) else Inl QuotaExceededError)"

definition JSON_stringify :: "'a list \<Rightarrow> 'a stored" where
  "JSON_stringify xs = Encoded xs"

fun JSON_parse :: "'a stored \<Rightarrow> js_error + 'a json_value" where
  "JSON_parse (Malformed s) = Inl SyntaxError"
| "JSON_parse (Encoded xs) = Inr (Array xs)"
| "JSON_parse (NonArray s) = Inr Other"

text \<open>Truthiness of a stored string: only the empty string is falsy.\<close>

fun truthy :: "'a stored \<Rightarrow> bool" where
  "truthy (Malformed s) = (s \<noteq> [])"
| "truthy (Encoded xs) = True"
| "truthy (NonArray s) = True"

text \<open>
  The clock, read twice by each create: \<open>Date.now()\<close> in milliseconds and
  \<open>new Date().toISOString()\<close>.
\<close>

record clock =
  date_now :: nat
  iso_now :: string

section \<open>TodoManager\<close>

record todo =
  todo_id :: string
  todo_text :: string
  completed :: bool
  priority :: string
  dueDate :: string
  createdAt :: string

text \<open>
  The manager object with what it reads and writes outside itself: the \<open>todos\<close> key of
  local storage, the records shown in the \<open>todo-list\<close> element, and the notifications
  shown so far (message and kind). The elements of the page are taken to exist. Left out
  are \<open>updateStats\<close>, which writes two counts of the collection on the page,
  \<open>searchTodos\<close>, which hides elements of the page, the markup of a record, and the timer
  that takes a notification off the page after three seconds: none of them writes the
  manager or the store.
\<close>

record todo_manager =
  todos :: "todo list"
  currentFilter :: string
  todoStorage :: "todo localStorage"
  todoList :: "todo list"
  todoToasts :: "(string \<times> string) list"

definition TodoManager_showNotification ::
  "string \<Rightarrow> string \<Rightarrow> todo_manager \<Rightarrow> todo_manager" where
  "TodoManager_showNotification message type m =
     m\<lparr>todoToasts := todoToasts m @ [(message, type)]\<rparr>"

definition saveTodos :: "todo_manager \<Rightarrow> todo_manager" where
  "saveTodos m =
     (case setItem (JSON_stringify (todos m)) (todoStorage m) of
        Inr ls \<Rightarrow> m\<lparr>todoStorage := ls\<rparr>
      | Inl error \<Rightarrow> TodoManager_showNotification ''Error saving todos!'' ''danger'' m)"

definition loadTodos :: "todo localStorage \<Rightarrow> todo json_value" where
  "loadTodos ls =
     (case getItem ls of
        None \<Rightarrow> Array []
      | Some saved \<Rightarrow>
          if truthy saved
          then (case JSON_parse saved of Inr v \<Rightarrow> v | Inl error \<Rightarrow> Array [])
          else Array [])"

definition getFilteredTodos :: "todo_manager \<Rightarrow> todo list" where
  "getFilteredTodos m =
     (if currentFilter m = ''pending'' then filter (\<lambda>todo. \<not> completed todo) (todos m)
      else if currentFilter m = ''completed'' then filter (\<lambda>todo. completed todo) (todos m)
      else todos m)"

definition render :: "todo_manager \<Rightarrow> todo_manager" where
  "render m = m\<lparr>todoList := getFilteredTodos m\<rparr>"

text \<open>
  The constructor: \<open>loadTodos\<close>, the filter \<open>all\<close>, then \<open>init\<close>. When what was loaded is
  not an array, \<open>init\<close> ends with a \<open>TypeError\<close>: of the spread in \<open>getFilteredTodos\<close>
  for a value that cannot be iterated, of \<open>this.todos.filter\<close> in \<open>updateStats\<close> for a
  string.
\<close>

definition TodoManager_new :: "todo localStorage \<Rightarrow> js_error + todo_manager" where
  "TodoManager_new ls =
     (case loadTodos ls of
        Array xs \<Rightarrow>
          Inr (render \<lparr>todos = xs, currentFilter = ''all'', todoStorage = ls,
                       todoList = [], todoToasts = []\<rparr>)
      | Other \<Rightarrow> Inl TypeError)"

definition addTodo ::
  "string \<Rightarrow> string \<Rightarrow> string \<Rightarrow> clock \<Rightarrow> todo_manager \<Rightarrow> todo completion \<times> todo_manager" where
  "addTodo text priority' dueDate' env m =
     (let todo = \<lparr>todo_id = toString (date_now env), todo_text = text, completed = False,
                  priority = priority', dueDate = dueDate', createdAt = iso_now env\<rparr>;
          m1 = m\<lparr>todos := todo # todos m\<rparr>;
          m2 = saveTodos m1;
          m3 = render m2
      in (Undefined, TodoManager_showNotification ''Todo added successfully!'' ''success'' m3))"

text \<open>
  \<open>find\<close> returns the first record with the id, and the assignment changes that record
  where it stands in the array: the element at the first matching index is replaced.
\<close>

definition toggleTodo :: "string \<Rightarrow> todo_manager \<Rightarrow> todo completion \<times> todo_manager" where
  "toggleTodo ident m =
     (case findIndex (\<lambda>t. todo_id t = ident) (todos m) of
        None \<Rightarrow> (Undefined, m)
      | Some i \<Rightarrow>
          let todo = (todos m ! i)\<lparr>completed := \<not> completed (todos m ! i)\<rparr>;
              m1 = m\<lparr>todos := (todos m)[i := todo]\<rparr>;
              m2 = render (saveTodos m1);
              message = (if completed todo then ''Todo completed!'' else ''Todo marked as pending'')
          in (Undefined, TodoManager_showNotification message ''info'' m2))"

definition deleteTodo :: "string \<Rightarrow> todo_manager \<Rightarrow> todo completion \<times> todo_manager" where
  "deleteTodo ident m =
     (case findIndex (\<lambda>t. todo_id t = ident) (todos m) of
        None \<Rightarrow> (Undefined, m)
      | Some todoIndex \<Rightarrow>
          let m1 = m\<lparr>todos := splice1 todoIndex (todos m)\<rparr>;
              m2 = render (saveTodos m1)
          in (Undefined, TodoManager_showNotification ''Todo deleted!'' ''warning'' m2))"

definition editTodo :: "string \<Rightarrow> string \<Rightarrow> todo_manager \<Rightarrow> todo completion \<times> todo_manager" where
  "editTodo ident newText m =
     (case findIndex (\<lambda>t. todo_id t = ident) (todos m) of
        None \<Rightarrow> (Undefined, m)
      | Some i \<Rightarrow>
          if trim newText \<noteq> []
          then let todo = (todos m ! i)\<lparr>todo_text := trim newText\<rparr>;
                   m1 = m\<lparr>todos := (todos m)[i := todo]\<rparr>;
                   m2 = render (saveTodos m1)
               in (Undefined, TodoManager_showNotification ''Todo updated!'' ''success'' m2)
          else (Undefined, m))"

definition setFilter :: "string \<Rightarrow> todo_manager \<Rightarrow> todo completion \<times> todo_manager" where
  "setFilter filter' m = (Undefined, render (m\<lparr>currentFilter := filter'\<rparr>))"

text \<open>\<open>clearCompleted\<close>; \<open>confirm'\<close> is the answer the user gives to \<open>confirm(...)\<close>.\<close>

definition clearCompleted :: "bool \<Rightarrow> todo_manager \<Rightarrow> todo completion \<times> todo_manager" where
  "clearCompleted confirm' m =
     (let completedCount = length (filter (\<lambda>t. completed t) (todos m))
      in if completedCount = 0
         then (Undefined, TodoManager_showNotification ''No completed todos to clear!'' ''info'' m)
         else if confirm'
         then let m1 = m\<lparr>todos := filter (\<lambda>todo. \<not> completed todo) (todos m)\<rparr>;
                  m2 = render (saveTodos m1)
              in (Undefined,
                  TodoManager_showNotification
                    (toString completedCount @ '' completed todos cleared!'') ''success'' m2)
         else (Undefined, m))"

text \<open>
  The submit handler of the todo form, bound in \<open>bindEvents\<close>: the three arguments are the
  values of the text input, the priority select and the due-date input.
\<close>

definition todoForm_submit ::
  "string \<Rightarrow> string \<Rightarrow> string \<Rightarrow> clock \<Rightarrow> todo_manager \<Rightarrow> todo completion \<times> todo_manager" where
  "todoForm_submit todoInput prioritySelect dueDateInput env m =
     (let text = trim todoInput
      in if text \<noteq> [] then addTodo text prioritySelect dueDateInput env m
         else (Undefined, m))"

section \<open>BlogManager\<close>

record post =
  post_id :: string
  title :: string
  content :: string
  tags :: "string list"
  excerpt :: string
  post_createdAt :: string

text \<open>
  The manager object with the \<open>blog-posts\<close> key of local storage, the records shown in
  the \<open>posts-list\<close> element and the notifications shown so far. \<open>currentPostId\<close> starts
  as \<open>null\<close>, which is \<open>None\<close>. As for the todos, \<open>updateStats\<close>, the markup, the
  visibility of the three views and the timer of a notification are left out.
\<close>

record blog_manager =
  posts :: "post list"
  currentView :: string
  currentPostId :: "string option"
  blogStorage :: "post localStorage"
  postsList :: "post list"
  blogToasts :: "(string \<times> string) list"

definition BlogManager_showNotification ::
  "string \<Rightarrow> string \<Rightarrow> blog_manager \<Rightarrow> blog_manager" where
  "BlogManager_showNotification message type b =
     b\<lparr>blogToasts := blogToasts b @ [(message, type)]\<rparr>"

text \<open>
  Neither \<open>savePosts\<close> nor \<open>loadPosts\<close> has a \<open>try\<close>: what storage throws leaves them.
  A parsed value that is not an array is assigned to \<open>this.posts\<close> like any other, and
  \<open>init\<close>, the only caller of \<open>loadPosts\<close>, then ends with a \<open>TypeError\<close> in
  \<open>renderPostsList\<close> or \<open>updateStats\<close>, which read \<open>length\<close>, \<open>map\<close> and \<open>reduce\<close> of it.
  A manager of the model always holds an array, so the model has this throw at the end of
  \<open>loadPosts\<close>.
\<close>

definition savePosts :: "blog_manager \<Rightarrow> post completion \<times> blog_manager" where
  "savePosts b =
     (case setItem (JSON_stringify (posts b)) (blogStorage b) of
        Inl error \<Rightarrow> (Threw error, b)
      | Inr ls \<Rightarrow> (Undefined, b\<lparr>blogStorage := ls\<rparr>))"

definition loadPosts :: "blog_manager \<Rightarrow> post completion \<times> blog_manager" where
  "loadPosts b =
     (case getItem (blogStorage b) of
        None \<Rightarrow> (Undefined, b\<lparr>posts := []\<rparr>)
      | Some data \<Rightarrow>
          if truthy data
          then (case JSON_parse data of
                  Inl error \<Rightarrow> (Threw error, b)
                | Inr (Array xs) \<Rightarrow> (Undefined, b\<lparr>posts := xs\<rparr>)
                | Inr Other \<Rightarrow> (Threw TypeError, b))
          else (Undefined, b\<lparr>posts := []\<rparr>))"

definition generateExcerpt :: "string \<Rightarrow> nat \<Rightarrow> string" where
  "generateExcerpt content' maxLength =
     (if content' = [] then []
      else if length content' > maxLength then take maxLength content' @ ''...''
      else content')"

text \<open>
  The function that \<open>renderPostsList\<close> gives to \<open>filter\<close>, on the search query and the
  title, the content and the tags of a post as UTF-16 strings.
\<close>

definition renderPostsList_filter :: "utf16 \<Rightarrow> utf16 \<Rightarrow> utf16 \<Rightarrow> utf16 list \<Rightarrow> bool" where
  "renderPostsList_filter searchQuery title' content' tags' =
     (includes_str (toLowerCase title') (toLowerCase searchQuery) \<or>
      includes_str (toLowerCase content') (toLowerCase searchQuery) \<or>
      list_ex (\<lambda>tag. includes_str (toLowerCase tag) (toLowerCase searchQuery)) tags')"

definition renderPostsList :: "string \<Rightarrow> blog_manager \<Rightarrow> blog_manager" where
  "renderPostsList searchQuery b =
     (let filtered =
        (if searchQuery \<noteq> []
         then filter (\<lambda>post.
                renderPostsList_filter (units searchQuery) (units (title post))
                  (units (content post)) (map units (tags post)))
              (posts b)
         else posts b)
      in b\<lparr>postsList := filtered\<rparr>)"

definition showPostsList :: "blog_manager \<Rightarrow> blog_manager" where
  "showPostsList b = b\<lparr>currentView := ''list''\<rparr>"

definition showCreateForm :: "blog_manager \<Rightarrow> blog_manager" where
  "showCreateForm b = b\<lparr>currentView := ''create''\<rparr>"

definition showEditForm :: "string \<Rightarrow> blog_manager \<Rightarrow> blog_manager" where
  "showEditForm ident b =
     (case find (\<lambda>p. post_id p = ident) (posts b) of
        None \<Rightarrow> b
      | Some post \<Rightarrow> b\<lparr>currentView := ''edit'', currentPostId := Some ident\<rparr>)"

text \<open>The constructor: no posts, the view \<open>list\<close>, no current post, then \<open>init\<close>.\<close>

definition BlogManager_new :: "post localStorage \<Rightarrow> js_error + blog_manager" where
  "BlogManager_new ls =
     (case loadPosts \<lparr>posts = [], currentView = ''list'', currentPostId = None,
                      blogStorage = ls, postsList = [], blogToasts = []\<rparr> of
        (Threw error, b) \<Rightarrow> Inl error
      | (_, b) \<Rightarrow> Inr (showPostsList (renderPostsList [] b)))"

definition createPost ::
  "string \<Rightarrow> string \<Rightarrow> string list \<Rightarrow> string \<Rightarrow> clock \<Rightarrow> blog_manager
     \<Rightarrow> post completion \<times> blog_manager" where
  "createPost title' content' tags' excerpt' env b =
     (let newPost = \<lparr>post_id = toString (date_now env), title = title', content = content',
                     tags = tags', excerpt = excerpt', post_createdAt = iso_now env\<rparr>;
          b1 = b\<lparr>posts := newPost # posts b\<rparr>
      in and_then (savePosts b1) (\<lambda>b2.
           (Undefined,
            BlogManager_showNotification ''Post created!'' ''success''
              (showPostsList (renderPostsList [] b2)))))"

definition updatePost ::
  "string \<Rightarrow> string \<Rightarrow> string \<Rightarrow> string list \<Rightarrow> string \<Rightarrow> blog_manager
     \<Rightarrow> post completion \<times> blog_manager" where
  "updatePost ident title' content' tags' excerpt' b =
     (case findIndex (\<lambda>p. post_id p = ident) (posts b) of
        None \<Rightarrow> (Undefined, b)
      | Some idx \<Rightarrow>
          let b1 = b\<lparr>posts := (posts b)[idx := (posts b ! idx)\<lparr>title := title',
                      content := content', tags := tags', excerpt := excerpt'\<rparr>]\<rparr>
          in and_then (savePosts b1) (\<lambda>b2.
               (Undefined,
                BlogManager_showNotification ''Post updated!'' ''success''
                  (showPostsList (renderPostsList [] b2)))))"

text \<open>\<open>deletePost\<close>; \<open>confirm'\<close> is the answer the user gives to \<open>confirm(...)\<close>.\<close>

definition deletePost :: "string \<Rightarrow> bool \<Rightarrow> blog_manager \<Rightarrow> post completion \<times> blog_manager" where
  "deletePost ident confirm' b =
     (case findIndex (\<lambda>p. post_id p = ident) (posts b) of
        None \<Rightarrow> (Undefined, b)
      | Some idx \<Rightarrow>
          if confirm'
          then let b1 = b\<lparr>posts := splice1 idx (posts b)\<rparr>
               in and_then (savePosts b1) (\<lambda>b2.
                    (Undefined,
                     BlogManager_showNotification ''Post deleted!'' ''warning''
                       (showPostsList (renderPostsList [] b2))))
          else (Undefined, b))"

text \<open>
  \<open>handleFormSubmission\<close>; the first three arguments are the values of the title, content
  and tags fields of the form.
\<close>

definition handleFormSubmission ::
  "string \<Rightarrow> string \<Rightarrow> string \<Rightarrow> clock \<Rightarrow> blog_manager \<Rightarrow> post completion \<times> blog_manager" where
  "handleFormSubmission postTitle postContent postTags env b =
     (let title' = trim postTitle;
          content' = trim postContent;
          tags' = trim postTags;
          tagsArr = (if tags' \<noteq> []
                     then filter (\<lambda>t. t \<noteq> []) (map trim (split CHR '','' tags'))
                     else []);
          excerpt' = generateExcerpt content' 150
      in if title' = [] \<or> content' = []
         then (Undefined,
               BlogManager_showNotification ''Title and content are required!'' ''warning'' b)
         else (case currentPostId b of
                 Some ident \<Rightarrow>
                   if currentView b = ''edit'' \<and> ident \<noteq> []
                   then updatePost ident title' content' tagsArr excerpt' b
                   else createPost title' content' tagsArr excerpt' env b
               | None \<Rightarrow> createPost title' content' tagsArr excerpt' env b))"

section \<open>Sequences of operations\<close>

text \<open>
  The page calls the methods of a manager one after the other, each call running to its
  end before the next. A command is one such call with its arguments and with what it
  reads from outside (the clock, the answer to \<open>confirm\<close>); after a call that threw,
  the manager is as the call left it.
\<close>

datatype todo_command =
    AddTodo string string string clock
  | ToggleTodo string
  | DeleteTodo string
  | EditTodo string string
  | ClearCompleted bool
  | SetFilter string

fun todo_step :: "todo_command \<Rightarrow> todo_manager \<Rightarrow> todo_manager" where
  "todo_step (AddTodo text priority' dueDate' env) m = snd (addTodo text priority' dueDate' env m)"
| "todo_step (ToggleTodo ident) m = snd (toggleTodo ident m)"
| "todo_step (DeleteTodo ident) m = snd (deleteTodo ident m)"
| "todo_step (EditTodo ident newText) m = snd (editTodo ident newText m)"
| "todo_step (ClearCompleted confirm') m = snd (clearCompleted confirm' m)"
| "todo_step (SetFilter filter') m = snd (setFilter filter' m)"

fun todo_run :: "todo_command list \<Rightarrow> todo_manager \<Rightarrow> todo_manager" where
  "todo_run [] m = m"
| "todo_run (c # cs) m = todo_run cs (todo_step c m)"






section \<open>Managers and a clock for the scenarios\<close>

text \<open>
  A clock at the first millisecond of 2024, and the two managers as their constructors
  leave them on a store with nothing under the key; the argument says whether the store
  accepts writes.
\<close>

definition clock_2024 :: clock where
  "clock_2024 = \<lparr>date_now = 1704067200000, iso_now = ''2024-01-01T00:00:00.000Z''\<rparr>"

definition no_todos :: "bool \<Rightarrow> todo_manager" where
  "no_todos w = \<lparr>todos = [], currentFilter = ''all'', todoStorage = \<lparr>item = None, writable = w\<rparr>,
                 todoList = [], todoToasts = []\<rparr>"

definition no_posts :: "bool \<Rightarrow> blog_manager" where
  "no_posts w = \<lparr>posts = [], currentView = ''list'', currentPostId = None,
                 blogStorage = \<lparr>item = None, writable = w\<rparr>, postsList = [], blogToasts = []\<rparr>"

text \<open>
  The scenario of the specification: \<open>add("Buy milk", "high", "2024-01-01")\<close> on the
  empty todo store, then \<open>toggle\<close> of that todo; and one post created on the empty blog
  store. \<open>two_todos_one_id\<close> is the todo store after two \<open>addTodo\<close> calls in the same
  millisecond.
\<close>

definition one_todo :: todo_manager where
  "one_todo = snd (addTodo ''Buy milk'' ''high'' ''2024-01-01'' clock_2024 (no_todos True))"

definition done_todo :: todo_manager where
  "done_todo = snd (toggleTodo ''1704067200000'' one_todo)"

definition two_todos_one_id :: todo_manager where
  "two_todos_one_id =
     todo_run [AddTodo ''a'' ''medium'' [] clock_2024, AddTodo ''b'' ''medium'' [] clock_2024]
       (no_todos True)"

definition one_post :: blog_manager where
  "one_post = snd (createPost ''Hi'' ''Body'' [''tag1''] ''Body'' clock_2024 (no_posts True))"

section \<open>The words of the specification\<close>

text \<open>
  The excerpt as the specification words it: the content itself when it has at most 150
  characters, otherwise its first 150 characters followed by the truncation marker.
\<close>

definition spec_excerpt :: "string \<Rightarrow> string" where
  "spec_excerpt c = (if length c \<le> 150 then c else take 150 c @ ''...'')"

text \<open>
  The tags as the specification words them: the input split at the commas, each piece
  trimmed, the empty ones dropped.
\<close>

definition spec_tags :: "string \<Rightarrow> string list" where
  "spec_tags input = filter (\<lambda>t. t \<noteq> []) (map trim (split CHR '','' input))"

text \<open>
  Case-insensitive substring, in the words of the specification and without
  \<open>toLowerCase\<close>. Two code units are the same letter when they are equal or are the capital
  and the small form of one letter; the letters are those of Basic Latin, Latin-1 and the
  Greek alphabet, whose sigma has two small forms. A query is a case-insensitive
  substring of a text when the text has, at some position, as many consecutive code units
  as the query has, each the same letter as the one of the query at its place.
\<close>

definition capital_small :: "nat \<Rightarrow> nat \<Rightarrow> bool" where
  "capital_small A a =
     ((((65 \<le> A \<and> A \<le> 90) \<or> (192 \<le> A \<and> A \<le> 222 \<and> A \<noteq> 215) \<or>
        (913 \<le> A \<and> A \<le> 937 \<and> A \<noteq> 930)) \<and> a = A + 32) \<or>
      (A = 931 \<and> a = 962))"

definition same_letter :: "nat \<Rightarrow> nat \<Rightarrow> bool" where
  "same_letter a b =
     (a = b \<or> capital_small a b \<or> capital_small b a \<or>
      (a = 962 \<and> b = 963) \<or> (a = 963 \<and> b = 962))"

fun ci_prefix :: "utf16 \<Rightarrow> utf16 \<Rightarrow> bool" where
  "ci_prefix [] s = True"
| "ci_prefix (a # q) [] = False"
| "ci_prefix (a # q) (b # s) = (same_letter a b \<and> ci_prefix q s)"

fun ci_substring :: "utf16 \<Rightarrow> utf16 \<Rightarrow> bool" where
  "ci_substring q [] = (q = [])"
| "ci_substring q (b # s) = (ci_prefix q (b # s) \<or> ci_substring q s)"

section \<open>Properties\<close>

subsection \<open>Lists, strings and numbers\<close>

lemma findIndex_None_iff: "findIndex P xs = None \<longleftrightarrow> (\<forall>x\<in>set xs. \<not> P x)"
  by (induction xs) auto

lemma findIndex_Some:
  "findIndex P xs = Some i \<Longrightarrow> i < length xs \<and> P (xs ! i) \<and> (\<forall>j<i. \<not> P (xs ! j))"
proof (induction xs arbitrary: i)
  case Nil
  then show ?case by simp
next
  case (Cons x xs)
  show ?case
  proof (cases "P x")
    case True
    with Cons.prems show ?thesis by simp
  next
    case False
    with Cons.prems obtain k where k: "findIndex P xs = Some k" "i = Suc k"
      by auto
    from Cons.IH [OF k(1)] False k(2) show ?thesis
      by (auto simp: less_Suc_eq_0_disj)
  qed
qed

lemma dropWhile_all_iff: "(\<forall>x\<in>set (dropWhile P s). P x) \<longleftrightarrow> (\<forall>x\<in>set s. P x)"
  by (induction s) auto

text \<open>A string trims to the empty string exactly when it is empty or white space only.\<close>

lemma trim_Nil_iff: "trim s = [] \<longleftrightarrow> (\<forall>c\<in>set s. isWhiteSpace c)"
  by (simp add: trim_def dropWhile_all_iff)






lemmas todo_defs = saveTodos_def setItem_def JSON_stringify_def render_def
  TodoManager_showNotification_def

lemmas blog_defs = savePosts_def setItem_def JSON_stringify_def renderPostsList_def
  showPostsList_def BlogManager_showNotification_def and_then_def

text \<open>The two fixtures are what the constructors build on an empty store.\<close>

lemma TodoManager_new_empty: "TodoManager_new \<lparr>item = None, writable = w\<rparr> = Inr (no_todos w)"
  by (simp add: TodoManager_new_def no_todos_def loadTodos_def getItem_def render_def
      getFilteredTodos_def)

lemma BlogManager_new_empty: "BlogManager_new \<lparr>item = None, writable = w\<rparr> = Inr (no_posts w)"
  by (simp add: BlogManager_new_def no_posts_def loadPosts_def getItem_def
      renderPostsList_def showPostsList_def)

subsection \<open>Create with blank text\<close>

text \<open>
  C1, as the code has it. The check for blank text is made by the two form handlers, not
  by \<open>addTodo\<close> and \<open>createPost\<close>: when the text of the todo form is empty or white
  space only, the submit handler leaves the manager as it was (collection, storage and
  page); when the title or the content of the post form is empty or white space only,
  \<open>handleFormSubmission\<close> returns normally with the posts and the stored value unchanged,
  having shown one warning.
\<close>

theorem blank_form_input_is_noop:
  "((\<forall>c\<in>set todoInput. isWhiteSpace c) \<longrightarrow>
      todoForm_submit todoInput prioritySelect dueDateInput env m = (Undefined, m)) \<and>
   ((\<forall>c\<in>set postTitle. isWhiteSpace c) \<or> (\<forall>c\<in>set postContent. isWhiteSpace c) \<longrightarrow>
      handleFormSubmission postTitle postContent postTags env b =
        (Undefined, b\<lparr>blogToasts := blogToasts b @
           [(''Title and content are required!'', ''warning'')]\<rparr>))"
  by (auto simp: todoForm_submit_def handleFormSubmission_def trim_Nil_iff Let_def
      BlogManager_showNotification_def)

text \<open>The theorem at a todo text of three spaces and at a post title of one tab.\<close>

theorem blank_form_input_is_noop_witness:
  "list_all isWhiteSpace ''   '' \<and>
   todoForm_submit ''   '' ''high'' [] clock_2024 (no_todos True) = (Undefined, no_todos True) \<and>
   list_all isWhiteSpace [CHR 0x09] \<and>
   posts (snd (handleFormSubmission [CHR 0x09] ''Body'' ''a, b'' clock_2024 (no_posts True))) = [] \<and>
   blogStorage (snd (handleFormSubmission [CHR 0x09] ''Body'' ''a, b'' clock_2024 (no_posts True)))
     = \<lparr>item = None, writable = True\<rparr>"
  using blank_form_input_is_noop [of "''   ''" "''high''" "[]" clock_2024 "no_todos True"
      "[CHR 0x09]" "''Body''" "''a, b''" "no_posts True"]
  by (simp add: isWhiteSpace_def no_posts_def)

text \<open>
  C1 as it is stated fails: \<open>addTodo\<close> called with a text of two spaces adds a record and
  writes the store, and so does \<open>createPost\<close> with an empty title and content.
\<close>

theorem create_with_blank_text_adds_record:
  "length (todos (snd (addTodo ''  '' ''medium'' [] clock_2024 (no_todos True)))) = 1 \<and>
   item (todoStorage (snd (addTodo ''  '' ''medium'' [] clock_2024 (no_todos True)))) \<noteq> None \<and>
   length (posts (snd (createPost [] [] [] [] clock_2024 (no_posts True)))) = 1 \<and>
   item (blogStorage (snd (createPost [] [] [] [] clock_2024 (no_posts True)))) \<noteq> None"
  by (simp add: addTodo_def createPost_def Let_def todo_defs blog_defs no_todos_def no_posts_def)

subsection \<open>Failing storage\<close>

text \<open>
  In \<open>TodoManager\<close> both accesses to storage are inside \<open>try\<close>: on a stored text that
  \<open>JSON.parse\<close> rejects the constructor returns a manager with no todos, and a refused write
  leaves the todos and the store as they are and shows one notification of kind
  \<open>danger\<close>.
\<close>

lemma TodoManager_storage_errors_caught:
  "(item ls = Some (Malformed s) \<longrightarrow>
      TodoManager_new ls =
        Inr \<lparr>todos = [], currentFilter = ''all'', todoStorage = ls, todoList = [],
             todoToasts = []\<rparr>) \<and>
   (\<not> writable (todoStorage m) \<longrightarrow>
      saveTodos m = m\<lparr>todoToasts := todoToasts m @ [(''Error saving todos!'', ''danger'')]\<rparr>)"
  by (simp add: TodoManager_new_def loadTodos_def getItem_def getFilteredTodos_def todo_defs)

text \<open>
  A stored text that parses, but not to an array, is caught by neither manager: both
  constructors end with a \<open>TypeError\<close>.
\<close>

lemma stored_value_not_an_array:
  "TodoManager_new \<lparr>item = Some (NonArray s), writable = w\<rparr> = Inl TypeError \<and>
   BlogManager_new \<lparr>item = Some (NonArray s), writable = w\<rparr> = Inl TypeError"
  by (simp add: TodoManager_new_def loadTodos_def BlogManager_new_def loadPosts_def getItem_def)

text \<open>
  C2 fails for \<open>BlogManager\<close>: \<open>loadPosts\<close> and \<open>savePosts\<close> have no \<open>try\<close>. On a store
  whose \<open>blog-posts\<close> text is malformed the constructor ends with the \<open>SyntaxError\<close> of
  \<open>JSON.parse\<close> and no manager is built; on a store that refuses writes \<open>createPost\<close>
  ends with the error of \<open>setItem\<close>, after the post was added in memory and before the
  list is rendered or a notification shown.
\<close>

theorem BlogManager_storage_errors_propagate:
  "BlogManager_new \<lparr>item = Some (Malformed ''{not json''), writable = True\<rparr> = Inl SyntaxError \<and>
   fst (createPost ''Hi'' ''Body'' [] ''Body'' clock_2024 (no_posts False))
     = Threw QuotaExceededError \<and>
   blogToasts (snd (createPost ''Hi'' ''Body'' [] ''Body'' clock_2024 (no_posts False))) = [] \<and>
   length (posts (snd (createPost ''Hi'' ''Body'' [] ''Body'' clock_2024 (no_posts False)))) = 1"
  by (simp add: BlogManager_new_def loadPosts_def getItem_def createPost_def blog_defs
      no_posts_def)

subsection \<open>The values of the scenarios\<close>

lemma digit_simps:
  "digit 0 = CHR ''0''" "digit 1 = CHR ''1''" "digit (Suc 0) = CHR ''1''" "digit 2 = CHR ''2''"
  "digit 3 = CHR ''3''" "digit 4 = CHR ''4''" "digit 5 = CHR ''5''" "digit 6 = CHR ''6''"
  "digit 7 = CHR ''7''" "digit 8 = CHR ''8''" "digit 9 = CHR ''9''"
  by code_simp+

lemma toString_clock_2024: "toString (date_now clock_2024) = ''1704067200000''"
  by (simp add: clock_2024_def toString.simps digit_simps)

lemma toString_1: "toString (Suc 0) = ''1''"
  by (simp add: toString.simps digit_simps)

lemma one_todo_eq:
  "one_todo =
     \<lparr>todos = [\<lparr>todo_id = ''1704067200000'', todo_text = ''Buy milk'', completed = False,
          priority = ''high'', dueDate = ''2024-01-01'',
          createdAt = ''2024-01-01T00:00:00.000Z''\<rparr>],
      currentFilter = ''all'',
      todoStorage = \<lparr>item = Some (Encoded
        [\<lparr>todo_id = ''1704067200000'', todo_text = ''Buy milk'', completed = False,
          priority = ''high'', dueDate = ''2024-01-01'',
          createdAt = ''2024-01-01T00:00:00.000Z''\<rparr>]), writable = True\<rparr>,
      todoList = [\<lparr>todo_id = ''1704067200000'', todo_text = ''Buy milk'', completed = False,
          priority = ''high'', dueDate = ''2024-01-01'',
          createdAt = ''2024-01-01T00:00:00.000Z''\<rparr>],
      todoToasts = [(''Todo added successfully!'', ''success'')]\<rparr>"
  by (simp add: one_todo_def addTodo_def Let_def todo_defs getFilteredTodos_def no_todos_def
      toString_clock_2024) (simp add: clock_2024_def)

lemma done_todo_eq:
  "done_todo =
     \<lparr>todos = [\<lparr>todo_id = ''1704067200000'', todo_text = ''Buy milk'', completed = True,
          priority = ''high'', dueDate = ''2024-01-01'',
          createdAt = ''2024-01-01T00:00:00.000Z''\<rparr>],
      currentFilter = ''all'',
      todoStorage = \<lparr>item = Some (Encoded
        [\<lparr>todo_id = ''1704067200000'', todo_text = ''Buy milk'', completed = True,
          priority = ''high'', dueDate = ''2024-01-01'',
          createdAt = ''2024-01-01T00:00:00.000Z''\<rparr>]), writable = True\<rparr>,
      todoList = [\<lparr>todo_id = ''1704067200000'', todo_text = ''Buy milk'', completed = True,
          priority = ''high'', dueDate = ''2024-01-01'',
          createdAt = ''2024-01-01T00:00:00.000Z''\<rparr>],
      todoToasts = [(''Todo added successfully!'', ''success''), (''Todo completed!'', ''info'')]\<rparr>"
  by (simp add: done_todo_def one_todo_eq toggleTodo_def Let_def todo_defs getFilteredTodos_def)

lemma two_todos_one_id_todos:
  "todos two_todos_one_id =
     [\<lparr>todo_id = ''1704067200000'', todo_text = ''b'', completed = False, priority = ''medium'',
       dueDate = [], createdAt = ''2024-01-01T00:00:00.000Z''\<rparr>,
      \<lparr>todo_id = ''1704067200000'', todo_text = ''a'', completed = False, priority = ''medium'',
       dueDate = [], createdAt = ''2024-01-01T00:00:00.000Z''\<rparr>]"
  by (simp add: two_todos_one_id_def addTodo_def Let_def todo_defs toString_clock_2024
      no_todos_def)
     (simp add: clock_2024_def)

lemma one_post_eq:
  "one_post =
     \<lparr>posts = [\<lparr>post_id = ''1704067200000'', title = ''Hi'', content = ''Body'',
          tags = [''tag1''], excerpt = ''Body'',
          post_createdAt = ''2024-01-01T00:00:00.000Z''\<rparr>],
      currentView = ''list'', currentPostId = None,
      blogStorage = \<lparr>item = Some (Encoded
        [\<lparr>post_id = ''1704067200000'', title = ''Hi'', content = ''Body'',
          tags = [''tag1''], excerpt = ''Body'',
          post_createdAt = ''2024-01-01T00:00:00.000Z''\<rparr>]), writable = True\<rparr>,
      postsList = [\<lparr>post_id = ''1704067200000'', title = ''Hi'', content = ''Body'',
          tags = [''tag1''], excerpt = ''Body'',
          post_createdAt = ''2024-01-01T00:00:00.000Z''\<rparr>],
      blogToasts = [(''Post created!'', ''success'')]\<rparr>"
  by (simp add: one_post_def createPost_def Let_def blog_defs no_posts_def toString_clock_2024)
     (simp add: clock_2024_def)

subsection \<open>Create\<close>

text \<open>
  C3, as the code has it. \<open>addTodo\<close> and \<open>createPost\<close> take any arguments (they do not
  validate). The new record has the decimal digits of \<open>Date.now()\<close> as its id, the
  arguments as its fields, the ISO time as its creation time and, for a todo,
  \<open>completed = false\<close>; it is put at index 0 in front of the records there were, which
  stay as they are; looking the new id up with \<open>find\<close> gives the new record; and when
  the store accepts the write, the stored value is the new collection. \<open>addTodo\<close> returns
  \<open>undefined\<close>, and so does \<open>createPost\<close> when the store accepts the write: neither
  returns the record.
\<close>

theorem create_inserts_at_head:
  "fst (addTodo text priority' dueDate' env m) = Undefined \<and>
   todos (snd (addTodo text priority' dueDate' env m)) =
     \<lparr>todo_id = toString (date_now env), todo_text = text, completed = False,
       priority = priority', dueDate = dueDate', createdAt = iso_now env\<rparr> # todos m \<and>
   find (\<lambda>t. todo_id t = toString (date_now env)) (todos (snd (addTodo text priority' dueDate' env m))) =
     Some \<lparr>todo_id = toString (date_now env), todo_text = text, completed = False,
       priority = priority', dueDate = dueDate', createdAt = iso_now env\<rparr> \<and>
   (writable (todoStorage m) \<longrightarrow>
      item (todoStorage (snd (addTodo text priority' dueDate' env m))) =
        Some (Encoded (todos (snd (addTodo text priority' dueDate' env m))))) \<and>
   posts (snd (createPost title' content' tags' excerpt' env b)) =
     \<lparr>post_id = toString (date_now env), title = title', content = content', tags = tags',
       excerpt = excerpt', post_createdAt = iso_now env\<rparr> # posts b \<and>
   find (\<lambda>p. post_id p = toString (date_now env)) (posts (snd (createPost title' content' tags' excerpt' env b))) =
     Some \<lparr>post_id = toString (date_now env), title = title', content = content', tags = tags',
       excerpt = excerpt', post_createdAt = iso_now env\<rparr> \<and>
   (writable (blogStorage b) \<longrightarrow>
      fst (createPost title' content' tags' excerpt' env b) = Undefined \<and>
      item (blogStorage (snd (createPost title' content' tags' excerpt' env b))) =
        Some (Encoded (posts (snd (createPost title' content' tags' excerpt' env b)))))"
  by (simp add: addTodo_def createPost_def Let_def todo_defs blog_defs)

text \<open>The scenario \<open>add("Buy milk", "high", "2024-01-01")\<close>, and one post, on empty stores.\<close>

theorem create_inserts_at_head_witness:
  "writable (todoStorage (no_todos True)) \<and>
   todos (snd (addTodo ''Buy milk'' ''high'' ''2024-01-01'' clock_2024 (no_todos True))) =
     [\<lparr>todo_id = ''1704067200000'', todo_text = ''Buy milk'', completed = False,
       priority = ''high'', dueDate = ''2024-01-01'', createdAt = ''2024-01-01T00:00:00.000Z''\<rparr>] \<and>
   item (todoStorage (snd (addTodo ''Buy milk'' ''high'' ''2024-01-01'' clock_2024 (no_todos True)))) =
     Some (Encoded [\<lparr>todo_id = ''1704067200000'', todo_text = ''Buy milk'', completed = False,
       priority = ''high'', dueDate = ''2024-01-01'', createdAt = ''2024-01-01T00:00:00.000Z''\<rparr>]) \<and>
   writable (blogStorage (no_posts True)) \<and>
   fst (createPost ''Hi'' ''Body'' [''tag1''] ''Body'' clock_2024 (no_posts True)) = Undefined \<and>
   item (blogStorage (snd (createPost ''Hi'' ''Body'' [''tag1''] ''Body'' clock_2024 (no_posts True)))) =
     Some (Encoded [\<lparr>post_id = ''1704067200000'', title = ''Hi'', content = ''Body'',
       tags = [''tag1''], excerpt = ''Body'', post_createdAt = ''2024-01-01T00:00:00.000Z''\<rparr>])"
  using create_inserts_at_head [of "''Buy milk''" "''high''" "''2024-01-01''" clock_2024
      "no_todos True" "''Hi''" "''Body''" "[''tag1'']" "''Body''" "no_posts True"]
  by (simp add: toString_clock_2024) (simp add: no_todos_def no_posts_def clock_2024_def)

text \<open>
  C3 as it is stated fails: what \<open>addTodo\<close> and \<open>createPost\<close> return is not the new
  record.
\<close>

theorem create_returns_no_record:
  "fst (addTodo ''Buy milk'' ''high'' ''2024-01-01'' clock_2024 (no_todos True)) \<noteq>
     Value (hd (todos (snd (addTodo ''Buy milk'' ''high'' ''2024-01-01'' clock_2024 (no_todos True))))) \<and>
   fst (createPost ''Hi'' ''Body'' [''tag1''] ''Body'' clock_2024 (no_posts True)) \<noteq>
     Value (hd (posts (snd (createPost ''Hi'' ''Body'' [''tag1''] ''Body'' clock_2024 (no_posts True)))))"
  by (simp add: addTodo_def createPost_def Let_def blog_defs no_posts_def)

subsection \<open>Identifiers\<close>

lemma map_update_same: "i < length xs \<Longrightarrow> f y = f (xs ! i) \<Longrightarrow> map f (xs[i := y]) = map f xs"
  by (simp add: list_eq_iff_nth_eq nth_list_update)















subsection \<open>Update\<close>

text \<open>
  C5. \<open>editTodo\<close> and \<open>updatePost\<close> with an id that no record has change nothing.
  With an id that a record has, they replace the first record with that id, where it
  stands, by the same record with only the given fields changed (the text, trimmed and
  when it is not blank, for a todo; title, content, tags and excerpt for a post): every
  other field of that record and every other record stay as they were. In every case the
  ids and the creation times of the collection are what they were.
\<close>

theorem update_frame:
  "(findIndex (\<lambda>t. todo_id t = ident) (todos m) = None \<longrightarrow> editTodo ident newText m = (Undefined, m)) \<and>
   (findIndex (\<lambda>t. todo_id t = ident) (todos m) = Some i \<longrightarrow>
      todos (snd (editTodo ident newText m)) =
        (todos m)[i := (todos m ! i)\<lparr>todo_text :=
           (if trim newText \<noteq> [] then trim newText else todo_text (todos m ! i))\<rparr>]) \<and>
   map todo_id (todos (snd (editTodo ident newText m))) = map todo_id (todos m) \<and>
   map createdAt (todos (snd (editTodo ident newText m))) = map createdAt (todos m) \<and>
   (findIndex (\<lambda>p. post_id p = ident') (posts b) = None \<longrightarrow>
      updatePost ident' title' content' tags' excerpt' b = (Undefined, b)) \<and>
   (findIndex (\<lambda>p. post_id p = ident') (posts b) = Some idx \<longrightarrow>
      posts (snd (updatePost ident' title' content' tags' excerpt' b)) =
        (posts b)[idx := (posts b ! idx)\<lparr>title := title', content := content', tags := tags',
           excerpt := excerpt'\<rparr>]) \<and>
   map post_id (posts (snd (updatePost ident' title' content' tags' excerpt' b))) = map post_id (posts b) \<and>
   map post_createdAt (posts (snd (updatePost ident' title' content' tags' excerpt' b))) =
     map post_createdAt (posts b)"
proof -
  have e: "map todo_id (todos (snd (editTodo ident newText m))) = map todo_id (todos m) \<and>
    map createdAt (todos (snd (editTodo ident newText m))) = map createdAt (todos m)"
  proof (cases "findIndex (\<lambda>t. todo_id t = ident) (todos m)")
    case None
    then show ?thesis by (simp add: editTodo_def)
  next
    case (Some i)
    with findIndex_Some [OF Some] show ?thesis
      by (simp add: editTodo_def Let_def todo_defs map_update_same)
  qed
  have u: "map post_id (posts (snd (updatePost ident' title' content' tags' excerpt' b))) = map post_id (posts b) \<and>
    map post_createdAt (posts (snd (updatePost ident' title' content' tags' excerpt' b))) =
     map post_createdAt (posts b)"
  proof (cases "findIndex (\<lambda>p. post_id p = ident') (posts b)")
    case None
    then show ?thesis by (simp add: updatePost_def)
  next
    case (Some i)
    with findIndex_Some [OF Some] show ?thesis
      by (simp add: updatePost_def Let_def blog_defs map_update_same)
  qed
  have rest: "(findIndex (\<lambda>t. todo_id t = ident) (todos m) = None \<longrightarrow> editTodo ident newText m = (Undefined, m)) \<and>
   (findIndex (\<lambda>t. todo_id t = ident) (todos m) = Some i \<longrightarrow>
      todos (snd (editTodo ident newText m)) =
        (todos m)[i := (todos m ! i)\<lparr>todo_text :=
           (if trim newText \<noteq> [] then trim newText else todo_text (todos m ! i))\<rparr>]) \<and>
   (findIndex (\<lambda>p. post_id p = ident') (posts b) = None \<longrightarrow>
      updatePost ident' title' content' tags' excerpt' b = (Undefined, b)) \<and>
   (findIndex (\<lambda>p. post_id p = ident') (posts b) = Some idx \<longrightarrow>
      posts (snd (updatePost ident' title' content' tags' excerpt' b)) =
        (posts b)[idx := (posts b ! idx)\<lparr>title := title', content := content', tags := tags',
           excerpt := excerpt'\<rparr>])"
    by (simp add: editTodo_def updatePost_def Let_def todo_defs blog_defs)
  from e u rest show ?thesis
    by blast
qed

text \<open>The theorem at the todo and the post of the scenarios, and at an id no record has.\<close>

theorem update_frame_witness:
  "findIndex (\<lambda>t. todo_id t = ''1704067200000'') (todos one_todo) = Some 0 \<and>
   map todo_text (todos (snd (editTodo ''1704067200000'' ''  Buy oat milk '' one_todo))) =
     [''Buy oat milk''] \<and>
   map todo_id (todos (snd (editTodo ''1704067200000'' ''  Buy oat milk '' one_todo))) =
     [''1704067200000''] \<and>
   map createdAt (todos (snd (editTodo ''1704067200000'' ''  Buy oat milk '' one_todo))) =
     [''2024-01-01T00:00:00.000Z''] \<and>
   findIndex (\<lambda>t. todo_id t = ''0'') (todos one_todo) = None \<and>
   editTodo ''0'' ''x'' one_todo = (Undefined, one_todo) \<and>
   findIndex (\<lambda>p. post_id p = ''1704067200000'') (posts one_post) = Some 0 \<and>
   posts (snd (updatePost ''1704067200000'' ''Hello'' ''New body'' [] ''New body'' one_post)) =
     [\<lparr>post_id = ''1704067200000'', title = ''Hello'', content = ''New body'', tags = [],
       excerpt = ''New body'', post_createdAt = ''2024-01-01T00:00:00.000Z''\<rparr>] \<and>
   findIndex (\<lambda>p. post_id p = ''0'') (posts one_post) = None \<and>
   updatePost ''0'' ''Hello'' ''New body'' [] ''New body'' one_post = (Undefined, one_post)"
  using update_frame [of "''1704067200000''" one_todo "''  Buy oat milk ''" 0
      "''1704067200000''" one_post "''Hello''" "''New body''" "[]" "''New body''" 0]
    update_frame [of "''0''" one_todo "''x''" 0
      "''0''" one_post "''Hello''" "''New body''" "[]" "''New body''" 0]
  by (simp add: one_todo_eq one_post_eq trim_def isWhiteSpace_def)

subsection \<open>Delete and clear\<close>

lemma length_splice1: "i < length xs \<Longrightarrow> Suc (length (splice1 i xs)) = length xs"
  by (simp add: splice1_def)

lemma splice1_Cons_Suc: "splice1 (Suc i) (x # xs) = x # splice1 i xs"
  by (simp add: splice1_def)

lemma splice1_Cons_0: "splice1 0 (x # xs) = xs"
  by (simp add: splice1_def)

text \<open>Once the first record with a key is taken out of a list with distinct keys, no record has the key.\<close>

lemma findIndex_splice1_distinct:
  "distinct (map f xs) \<Longrightarrow> findIndex (\<lambda>x. f x = k) xs = Some i \<Longrightarrow>
   findIndex (\<lambda>x. f x = k) (splice1 i xs) = None"
proof (induction xs arbitrary: i)
  case Nil
  then show ?case by simp
next
  case (Cons x xs)
  show ?case
  proof (cases "f x = k")
    case True
    with Cons.prems have "i = 0" and "k \<notin> f ` set xs"
      by auto
    then show ?thesis
      by (auto simp: splice1_Cons_0 findIndex_None_iff)
  next
    case False
    with Cons.prems obtain j where j: "findIndex (\<lambda>x. f x = k) xs = Some j" "i = Suc j"
      by auto
    from Cons.prems(1) have "distinct (map f xs)"
      by simp
    from Cons.IH [OF this j(1)] False j(2) show ?thesis
      by (simp add: splice1_Cons_Suc)
  qed
qed

lemma filter_compl_shorter: "filter P xs \<noteq> [] \<Longrightarrow> length (filter (\<lambda>x. \<not> P x) xs) < length xs"
proof -
  assume "filter P xs \<noteq> []"
  then have "0 < length (filter P xs)"
    by simp
  moreover have "length (filter P xs) + length (filter (\<lambda>x. \<not> P x) xs) = length xs"
    by (rule sum_length_filter_compl)
  ultimately show ?thesis
    by linarith
qed

lemma deleteTodo_absent:
  "findIndex (\<lambda>t. todo_id t = ident) (todos m) = None \<Longrightarrow> deleteTodo ident m = (Undefined, m)"
  by (simp add: deleteTodo_def)

lemma deleteTodo_present:
  "findIndex (\<lambda>t. todo_id t = ident) (todos m) = Some i \<Longrightarrow>
   fst (deleteTodo ident m) = Undefined \<and>
   todos (snd (deleteTodo ident m)) = splice1 i (todos m) \<and>
   (writable (todoStorage m) \<longrightarrow>
      item (todoStorage (snd (deleteTodo ident m))) = Some (Encoded (splice1 i (todos m))))"
  by (simp add: deleteTodo_def Let_def todo_defs)

lemma deletePost_absent:
  "findIndex (\<lambda>p. post_id p = ident) (posts b) = None \<Longrightarrow>
   deletePost ident confirm' b = (Undefined, b)"
  by (simp add: deletePost_def)

lemma deletePost_declined: "deletePost ident False b = (Undefined, b)"
  by (simp add: deletePost_def split: option.splits)

lemma deletePost_present:
  "findIndex (\<lambda>p. post_id p = ident) (posts b) = Some idx \<Longrightarrow>
   posts (snd (deletePost ident True b)) = splice1 idx (posts b) \<and>
   (writable (blogStorage b) \<longrightarrow>
      fst (deletePost ident True b) = Undefined \<and>
      item (blogStorage (snd (deletePost ident True b))) = Some (Encoded (splice1 idx (posts b))))"
  by (simp add: deletePost_def Let_def blog_defs)

lemma deleteTodo_twice:
  assumes "distinct (map todo_id (todos m))"
  shows "deleteTodo ident (snd (deleteTodo ident m)) = (Undefined, snd (deleteTodo ident m))"
proof (cases "findIndex (\<lambda>t. todo_id t = ident) (todos m)")
  case None
  then show ?thesis
    by (simp add: deleteTodo_absent)
next
  case (Some i)
  from findIndex_splice1_distinct [OF assms Some] deleteTodo_present [OF Some]
  have "findIndex (\<lambda>t. todo_id t = ident) (todos (snd (deleteTodo ident m))) = None"
    by simp
  then show ?thesis
    by (rule deleteTodo_absent)
qed

lemma deletePost_twice:
  assumes "distinct (map post_id (posts b))"
  shows "deletePost ident True (snd (deletePost ident True b)) =
    (Undefined, snd (deletePost ident True b))"
proof (cases "findIndex (\<lambda>p. post_id p = ident) (posts b)")
  case None
  then show ?thesis
    by (simp add: deletePost_absent)
next
  case (Some idx)
  from findIndex_splice1_distinct [OF assms Some] deletePost_present [OF Some]
  have "findIndex (\<lambda>p. post_id p = ident) (posts (snd (deletePost ident True b))) = None"
    by simp
  then show ?thesis
    by (rule deletePost_absent)
qed

text \<open>
  C7, as the code has it. \<open>deleteTodo\<close>, and \<open>deletePost\<close> once the user has confirmed,
  change nothing (collection, storage, page) when no record has the id. When a record
  has it, they remove the first record with that id and no other, so the collection is
  one record shorter, and the stored value is the new collection when the store accepts
  the write. When the ids of the collection are pairwise distinct, a second delete of
  the same id finds no record and leaves the manager as the first delete left it.
\<close>

theorem delete_removes_first_match:
  "(findIndex (\<lambda>t. todo_id t = ident) (todos m) = None \<longrightarrow> deleteTodo ident m = (Undefined, m)) \<and>
   (findIndex (\<lambda>t. todo_id t = ident) (todos m) = Some i \<longrightarrow>
      todo_id (todos m ! i) = ident \<and>
      todos (snd (deleteTodo ident m)) = splice1 i (todos m) \<and>
      Suc (length (todos (snd (deleteTodo ident m)))) = length (todos m) \<and>
      (writable (todoStorage m) \<longrightarrow>
         item (todoStorage (snd (deleteTodo ident m))) = Some (Encoded (splice1 i (todos m))))) \<and>
   (distinct (map todo_id (todos m)) \<longrightarrow>
      deleteTodo ident (snd (deleteTodo ident m)) = (Undefined, snd (deleteTodo ident m))) \<and>
   (findIndex (\<lambda>p. post_id p = ident') (posts b) = None \<longrightarrow>
      deletePost ident' True b = (Undefined, b)) \<and>
   (findIndex (\<lambda>p. post_id p = ident') (posts b) = Some idx \<longrightarrow>
      post_id (posts b ! idx) = ident' \<and>
      posts (snd (deletePost ident' True b)) = splice1 idx (posts b) \<and>
      Suc (length (posts (snd (deletePost ident' True b)))) = length (posts b) \<and>
      (writable (blogStorage b) \<longrightarrow>
         item (blogStorage (snd (deletePost ident' True b))) = Some (Encoded (splice1 idx (posts b))))) \<and>
   (distinct (map post_id (posts b)) \<longrightarrow>
      deletePost ident' True (snd (deletePost ident' True b)) =
        (Undefined, snd (deletePost ident' True b)))"
  using findIndex_Some [of "\<lambda>t. todo_id t = ident" "todos m" i]
    findIndex_Some [of "\<lambda>p. post_id p = ident'" "posts b" idx]
  by (simp add: deleteTodo_absent deleteTodo_present deleteTodo_twice deletePost_absent
      deletePost_present deletePost_twice length_splice1)

text \<open>The theorem at the todo and the post of the scenarios, and at an id no record has.\<close>

theorem delete_removes_first_match_witness:
  "findIndex (\<lambda>t. todo_id t = ''1704067200000'') (todos one_todo) = Some 0 \<and>
   distinct (map todo_id (todos one_todo)) \<and>
   writable (todoStorage one_todo) \<and>
   todos (snd (deleteTodo ''1704067200000'' one_todo)) = [] \<and>
   item (todoStorage (snd (deleteTodo ''1704067200000'' one_todo))) = Some (Encoded []) \<and>
   deleteTodo ''1704067200000'' (snd (deleteTodo ''1704067200000'' one_todo)) =
     (Undefined, snd (deleteTodo ''1704067200000'' one_todo)) \<and>
   findIndex (\<lambda>t. todo_id t = ''0'') (todos one_todo) = None \<and>
   deleteTodo ''0'' one_todo = (Undefined, one_todo) \<and>
   findIndex (\<lambda>p. post_id p = ''1704067200000'') (posts one_post) = Some 0 \<and>
   distinct (map post_id (posts one_post)) \<and>
   writable (blogStorage one_post) \<and>
   posts (snd (deletePost ''1704067200000'' True one_post)) = [] \<and>
   item (blogStorage (snd (deletePost ''1704067200000'' True one_post))) = Some (Encoded []) \<and>
   deletePost ''1704067200000'' True (snd (deletePost ''1704067200000'' True one_post)) =
     (Undefined, snd (deletePost ''1704067200000'' True one_post)) \<and>
   findIndex (\<lambda>p. post_id p = ''0'') (posts one_post) = None \<and>
   deletePost ''0'' True one_post = (Undefined, one_post)"
  using delete_removes_first_match [of "''1704067200000''" one_todo 0
      "''1704067200000''" one_post 0]
    delete_removes_first_match [of "''0''" one_todo 0 "''0''" one_post 0]
  by (simp add: one_todo_eq one_post_eq splice1_def)

text \<open>
  C7 as it is stated fails twice. \<open>deletePost\<close> with the id of a post that is there
  removes nothing when the user declines. And on the two todos created in the same
  millisecond, which share their id, one \<open>deleteTodo\<close> leaves the todo \<open>a\<close> and a second
  one removes it too.
\<close>

theorem delete_declined_or_repeated:
  "findIndex (\<lambda>p. post_id p = ''1704067200000'') (posts one_post) = Some 0 \<and>
   length (posts (snd (deletePost ''1704067200000'' False one_post))) = length (posts one_post) \<and>
   map todo_text (todos (snd (deleteTodo ''1704067200000'' two_todos_one_id))) = [''a''] \<and>
   map todo_text (todos (snd (deleteTodo ''1704067200000''
     (snd (deleteTodo ''1704067200000'' two_todos_one_id))))) = []"
  by (simp add: one_post_eq deletePost_def deleteTodo_def Let_def todo_defs splice1_def
      two_todos_one_id_todos)

text \<open>
  C8, as the code has it. When no todo is completed, \<open>clearCompleted\<close> leaves the
  collection and the store as they are and shows the notification
  \<open>No completed todos to clear!\<close> of kind \<open>info\<close>. When some todo is completed and the
  user confirms, exactly the todos that are not completed stay, in their order, the
  notification counts the cleared todos and is of kind \<open>success\<close>, and the stored value
  is the new collection when the store accepts the write.
\<close>

theorem clearCompleted_when_confirmed:
  "(filter completed (todos m) = [] \<longrightarrow>
      clearCompleted confirm' m =
        (Undefined, m\<lparr>todoToasts := todoToasts m @ [(''No completed todos to clear!'', ''info'')]\<rparr>)) \<and>
   (filter completed (todos m) \<noteq> [] \<longrightarrow>
      todos (snd (clearCompleted True m)) = filter (\<lambda>t. \<not> completed t) (todos m) \<and>
      last (todoToasts (snd (clearCompleted True m))) =
        (toString (length (filter completed (todos m))) @ '' completed todos cleared!'', ''success'') \<and>
      (writable (todoStorage m) \<longrightarrow>
         item (todoStorage (snd (clearCompleted True m))) =
           Some (Encoded (filter (\<lambda>t. \<not> completed t) (todos m)))))"
  by (simp add: clearCompleted_def Let_def todo_defs)

text \<open>The scenario: the completed todo is cleared; before the toggle there is nothing to clear.\<close>

theorem clearCompleted_when_confirmed_witness:
  "filter completed (todos done_todo) \<noteq> [] \<and>
   writable (todoStorage done_todo) \<and>
   todos (snd (clearCompleted True done_todo)) = [] \<and>
   last (todoToasts (snd (clearCompleted True done_todo))) =
     (''1 completed todos cleared!'', ''success'') \<and>
   item (todoStorage (snd (clearCompleted True done_todo))) = Some (Encoded []) \<and>
   filter completed (todos one_todo) = [] \<and>
   todos (snd (clearCompleted True one_todo)) = todos one_todo \<and>
   todoStorage (snd (clearCompleted True one_todo)) = todoStorage one_todo \<and>
   last (todoToasts (snd (clearCompleted True one_todo))) =
     (''No completed todos to clear!'', ''info'')"
  using clearCompleted_when_confirmed [of done_todo True]
    clearCompleted_when_confirmed [of one_todo True]
  by (simp add: done_todo_eq one_todo_eq toString_1)

text \<open>
  C8 as it is stated fails: when the user declines, the completed todo is still there
  after \<open>clearCompleted\<close>.
\<close>

theorem clearCompleted_declined_keeps_completed:
  "map completed (todos done_todo) = [True] \<and>
   map completed (todos (snd (clearCompleted False done_todo))) = [True]"
  by (simp add: done_todo_eq clearCompleted_def)

text \<open>
  C10. When a post has the id, \<open>deletePost\<close> removes the first such post if the user
  confirms and changes nothing (collection, storage, page) if the user declines. When
  some todo is completed, \<open>clearCompleted\<close> removes the completed todos if the user
  confirms and changes nothing if the user declines. \<open>deleteTodo\<close> asks nothing: when a
  todo has the id, it removes the first such todo.
\<close>

theorem confirmation_gates:
  "(findIndex (\<lambda>p. post_id p = ident) (posts b) = Some idx \<longrightarrow>
      posts (snd (deletePost ident True b)) = splice1 idx (posts b) \<and>
      Suc (length (posts (snd (deletePost ident True b)))) = length (posts b) \<and>
      deletePost ident False b = (Undefined, b)) \<and>
   (filter completed (todos m) \<noteq> [] \<longrightarrow>
      todos (snd (clearCompleted True m)) = filter (\<lambda>t. \<not> completed t) (todos m) \<and>
      length (todos (snd (clearCompleted True m))) < length (todos m) \<and>
      clearCompleted False m = (Undefined, m)) \<and>
   (findIndex (\<lambda>t. todo_id t = ident') (todos m) = Some i \<longrightarrow>
      todos (snd (deleteTodo ident' m)) = splice1 i (todos m) \<and>
      Suc (length (todos (snd (deleteTodo ident' m)))) = length (todos m))"
proof -
  have clear: "filter completed (todos m) \<noteq> [] \<Longrightarrow>
      todos (snd (clearCompleted True m)) = filter (\<lambda>t. \<not> completed t) (todos m) \<and>
      clearCompleted False m = (Undefined, m)"
    by (simp add: clearCompleted_def Let_def todo_defs)
  show ?thesis
    using findIndex_Some [of "\<lambda>t. todo_id t = ident'" "todos m" i]
      findIndex_Some [of "\<lambda>p. post_id p = ident" "posts b" idx]
      filter_compl_shorter [of completed "todos m"] clear
    by (simp add: deleteTodo_present deletePost_present deletePost_declined length_splice1)
qed

text \<open>The theorem at the post and the todos of the scenarios.\<close>

theorem confirmation_gates_witness:
  "findIndex (\<lambda>p. post_id p = ''1704067200000'') (posts one_post) = Some 0 \<and>
   posts (snd (deletePost ''1704067200000'' True one_post)) = [] \<and>
   deletePost ''1704067200000'' False one_post = (Undefined, one_post) \<and>
   filter completed (todos done_todo) \<noteq> [] \<and>
   todos (snd (clearCompleted True done_todo)) = [] \<and>
   clearCompleted False done_todo = (Undefined, done_todo) \<and>
   findIndex (\<lambda>t. todo_id t = ''1704067200000'') (todos one_todo) = Some 0 \<and>
   todos (snd (deleteTodo ''1704067200000'' one_todo)) = []"
  using confirmation_gates [of "''1704067200000''" one_post 0 done_todo "''1704067200000''" 0]
    confirmation_gates [of "''1704067200000''" one_post 0 one_todo "''1704067200000''" 0]
  by (simp add: one_post_eq done_todo_eq one_todo_eq splice1_def)

subsection \<open>Excerpt and tags of a submitted form\<close>

lemma split_nonempty: "split sep s \<noteq> []"
  by (induction s) (auto split: list.splits)

lemma split_Cons_other:
  "c \<noteq> sep \<Longrightarrow> split sep (c # s) = (c # hd (split sep s)) # tl (split sep s)"
  using split_nonempty [of sep s] by (cases "split sep s") auto

lemma split_snoc_other:
  "c \<noteq> sep \<Longrightarrow> split sep (s @ [c]) = butlast (split sep s) @ [last (split sep s) @ [c]]"
proof (induction s)
  case Nil
  then show ?case by simp
next
  case (Cons d s)
  with split_nonempty [of sep s] show ?case
    by (cases "split sep s") (auto split: list.splits)
qed

lemma trim_Cons_space: "isWhiteSpace c \<Longrightarrow> trim (c # p) = trim p"
  by (simp add: trim_def)

lemma trim_snoc_space: "isWhiteSpace c \<Longrightarrow> trim (p @ [c]) = trim p"
proof (cases "\<forall>x\<in>set p. isWhiteSpace x")
  case True
  moreover assume "isWhiteSpace c"
  ultimately show ?thesis
    by (simp add: trim_def dropWhile_all_iff)
next
  case False
  then obtain x where "x \<in> set p" "\<not> isWhiteSpace x"
    by blast
  then have "dropWhile isWhiteSpace (p @ [c]) = dropWhile isWhiteSpace p @ [c]"
    by (rule dropWhile_append1)
  moreover assume "isWhiteSpace c"
  ultimately show ?thesis
    by (simp add: trim_def)
qed

text \<open>White space in front of the text, or after it, does not change the trimmed pieces.\<close>

lemma map_trim_split_leading:
  assumes "\<not> isWhiteSpace sep"
  shows "map trim (split sep (dropWhile isWhiteSpace s)) = map trim (split sep s)"
proof (induction s)
  case Nil
  show ?case by simp
next
  case (Cons c s)
  show ?case
  proof (cases "isWhiteSpace c")
    case True
    with assms have "c \<noteq> sep"
      by auto
    from split_Cons_other [OF this] have
      "map trim (split sep (c # s)) = trim (c # hd (split sep s)) # map trim (tl (split sep s))"
      by simp
    also have "\<dots> = map trim (hd (split sep s) # tl (split sep s))"
      using True by (simp add: trim_Cons_space)
    also have "\<dots> = map trim (split sep s)"
      using split_nonempty [of sep s] by simp
    finally show ?thesis
      using True Cons.IH by simp
  next
    case False
    then show ?thesis by simp
  qed
qed

lemma map_trim_split_trailing:
  assumes "\<not> isWhiteSpace sep"
  shows "map trim (split sep (rev (dropWhile isWhiteSpace (rev s)))) = map trim (split sep s)"
proof (induction s rule: rev_induct)
  case Nil
  show ?case by simp
next
  case (snoc c s)
  show ?case
  proof (cases "isWhiteSpace c")
    case True
    with assms have "c \<noteq> sep"
      by auto
    from split_snoc_other [OF this] have
      "map trim (split sep (s @ [c])) =
         map trim (butlast (split sep s)) @ [trim (last (split sep s) @ [c])]"
      by simp
    also have "\<dots> = map trim (butlast (split sep s) @ [last (split sep s)])"
      using True by (simp add: trim_snoc_space)
    also have "\<dots> = map trim (split sep s)"
      using split_nonempty [of sep s] by simp
    finally show ?thesis
      using True snoc.IH by simp
  next
    case False
    then show ?thesis by simp
  qed
qed

lemma map_trim_split_trim:
  "\<not> isWhiteSpace sep \<Longrightarrow> map trim (split sep (trim s)) = map trim (split sep s)"
  by (simp add: trim_def [of s] map_trim_split_trailing map_trim_split_leading)

lemma comma_not_space: "\<not> isWhiteSpace CHR '',''"
  by (simp add: isWhiteSpace_def)

lemma trim_Nil: "trim [] = []"
  by (simp add: trim_def)

lemma dropWhile_replicate_other: "\<not> P c \<Longrightarrow> dropWhile P (replicate n c) = replicate n c"
  by (cases n) simp_all

lemma trim_replicate: "\<not> isWhiteSpace c \<Longrightarrow> trim (replicate n c) = replicate n c"
  by (simp add: trim_def dropWhile_replicate_other)

text \<open>
  The handler trims the whole tags field before it splits it and skips the split when
  nothing is left; what it computes is what the specification says of the field as typed.
\<close>

lemma tagsArr_spec:
  "(if trim s \<noteq> [] then filter (\<lambda>t. t \<noteq> []) (map trim (split CHR '','' (trim s))) else [])
     = spec_tags s"
proof (cases "trim s = []")
  case True
  have "map trim (split CHR '','' s) = map trim (split CHR '','' (trim s))"
    by (simp add: map_trim_split_trim comma_not_space)
  with True show ?thesis
    by (simp add: spec_tags_def trim_Nil)
next
  case False
  then show ?thesis
    by (simp add: spec_tags_def map_trim_split_trim comma_not_space)
qed

lemma generateExcerpt_spec: "generateExcerpt c 150 = spec_excerpt c"
  by (auto simp: generateExcerpt_def spec_excerpt_def)

lemma handleFormSubmission_valid:
  "trim postTitle \<noteq> [] \<Longrightarrow> trim postContent \<noteq> [] \<Longrightarrow>
   handleFormSubmission postTitle postContent postTags env b =
     (case currentPostId b of
        Some ident \<Rightarrow>
          if currentView b = ''edit'' \<and> ident \<noteq> []
          then updatePost ident (trim postTitle) (trim postContent) (spec_tags postTags)
                 (spec_excerpt (trim postContent)) b
          else createPost (trim postTitle) (trim postContent) (spec_tags postTags)
                 (spec_excerpt (trim postContent)) env b
      | None \<Rightarrow> createPost (trim postTitle) (trim postContent) (spec_tags postTags)
                 (spec_excerpt (trim postContent)) env b)"
  unfolding handleFormSubmission_def Let_def tagsArr_spec generateExcerpt_spec
  by simp

text \<open>
  C6. When the title and the content of the form are not blank, \<open>handleFormSubmission\<close>
  stores a post whose title and content are the trimmed fields, whose excerpt is the
  content when it has at most 150 characters and else its first 150 characters with the
  marker \<open>...\<close>, and whose tags are the trimmed non-empty pieces of the tags field split at
  the commas. In the edit view with a current post id that a post has, that post is
  replaced where it stands, keeping its id and creation time; outside the edit view the
  post is new, at the head of the collection.
\<close>

theorem form_submission_derives_excerpt_and_tags:
  "trim postTitle \<noteq> [] \<and> trim postContent \<noteq> [] \<longrightarrow>
     (currentView b = ''edit'' \<and> currentPostId b = Some ident \<and> ident \<noteq> [] \<and>
      findIndex (\<lambda>p. post_id p = ident) (posts b) = Some idx \<longrightarrow>
        posts (snd (handleFormSubmission postTitle postContent postTags env b)) =
          (posts b)[idx := (posts b ! idx)\<lparr>title := trim postTitle, content := trim postContent,
             tags := spec_tags postTags, excerpt := spec_excerpt (trim postContent)\<rparr>]) \<and>
     (currentView b \<noteq> ''edit'' \<or> currentPostId b = None \<or> currentPostId b = Some [] \<longrightarrow>
        posts (snd (handleFormSubmission postTitle postContent postTags env b)) =
          \<lparr>post_id = toString (date_now env), title = trim postTitle, content = trim postContent,
            tags = spec_tags postTags, excerpt = spec_excerpt (trim postContent),
            post_createdAt = iso_now env\<rparr> # posts b)"
  by (auto simp: handleFormSubmission_valid updatePost_def createPost_def Let_def blog_defs
      split: option.splits)

text \<open>
  The theorem at a short post created on the empty store, and at the post of the scenario
  edited to a content of 151 characters.
\<close>

theorem form_submission_derives_excerpt_and_tags_witness:
  "trim '' Hi '' \<noteq> [] \<and>
   trim ''This is a long body text...'' \<noteq> [] \<and>
   currentPostId (no_posts True) = None \<and>
   posts (snd (handleFormSubmission '' Hi '' ''This is a long body text...'' ''tag1, tag2''
     clock_2024 (no_posts True))) =
     [\<lparr>post_id = ''1704067200000'', title = ''Hi'', content = ''This is a long body text...'',
       tags = [''tag1'', ''tag2''], excerpt = ''This is a long body text...'',
       post_createdAt = ''2024-01-01T00:00:00.000Z''\<rparr>] \<and>
   trim (replicate 151 CHR ''x'') \<noteq> [] \<and>
   currentView (showEditForm ''1704067200000'' one_post) = ''edit'' \<and>
   currentPostId (showEditForm ''1704067200000'' one_post) = Some ''1704067200000'' \<and>
   findIndex (\<lambda>p. post_id p = ''1704067200000'')
     (posts (showEditForm ''1704067200000'' one_post)) = Some 0 \<and>
   posts (snd (handleFormSubmission ''Hi'' (replicate 151 CHR ''x'') '' a ,, b,''
     clock_2024 (showEditForm ''1704067200000'' one_post))) =
     [\<lparr>post_id = ''1704067200000'', title = ''Hi'', content = replicate 151 CHR ''x'',
       tags = [''a'', ''b''], excerpt = replicate 150 CHR ''x'' @ ''...'',
       post_createdAt = ''2024-01-01T00:00:00.000Z''\<rparr>]"
proof -
  have x: "\<not> isWhiteSpace CHR ''x''"
    by (simp add: isWhiteSpace_def)
  have tags1: "spec_tags ''tag1, tag2'' = [''tag1'', ''tag2'']"
    by (simp add: spec_tags_def trim_def isWhiteSpace_def)
  have tags2: "spec_tags '' a ,, b,'' = [''a'', ''b'']"
    by (simp add: spec_tags_def trim_def isWhiteSpace_def)
  have short: "spec_excerpt ''This is a long body text...'' = ''This is a long body text...''"
    by (simp add: spec_excerpt_def)
  have long: "spec_excerpt (replicate 151 CHR ''x'') = replicate 150 CHR ''x'' @ ''...''"
    by (simp add: spec_excerpt_def)
  have trims: "trim '' Hi '' = ''Hi''" "trim ''Hi'' = ''Hi''"
    "trim ''This is a long body text...'' = ''This is a long body text...''"
    by (simp_all add: trim_def isWhiteSpace_def)
  have edit: "showEditForm ''1704067200000'' one_post =
      one_post\<lparr>currentView := ''edit'', currentPostId := Some ''1704067200000''\<rparr>"
    by (simp add: showEditForm_def one_post_eq)
  from form_submission_derives_excerpt_and_tags
      [of "'' Hi ''" "''This is a long body text...''" "no_posts True" "[]" 0 "''tag1, tag2''"
        clock_2024]
    form_submission_derives_excerpt_and_tags
      [of "''Hi''" "replicate 151 CHR ''x''" "showEditForm ''1704067200000'' one_post"
        "''1704067200000''" 0 "'' a ,, b,''" clock_2024]
  show ?thesis
    unfolding edit trims trim_replicate [OF x] tags1 tags2 short long toString_clock_2024
    by (simp add: one_post_eq no_posts_def clock_2024_def)
qed

subsection \<open>The projectors\<close>

text \<open>\<open>includes\<close> is the substring test.\<close>

lemma includes_str_sublist: "includes_str s q \<longleftrightarrow> sublist q s"
proof (induction s)
  case Nil
  show ?case by simp
next
  case (Cons c s)
  have "take (length q) (c # s) = q \<longleftrightarrow> prefix q (c # s)"
    by (metis take_is_prefix prefix_def append_eq_conv_conj)
  with Cons show ?case
    by (simp add: sublist_Cons_right)
qed

text \<open>Without a capital sigma, lower-casing is the map of the single code units.\<close>

lemma toLowerCase_from_no_sigma:
  "931 \<notin> set s \<Longrightarrow> toLowerCase_from before s = map toLowerCase_unit s"
  by (induction s arbitrary: before) auto

lemma toLowerCase_below_256:
  "\<forall>u\<in>set s. u < 256 \<Longrightarrow> toLowerCase s = map toLowerCase_unit s"
  unfolding toLowerCase_def by (rule toLowerCase_from_no_sigma) auto

text \<open>
  Below 256, two code units have the same lower case exactly when they are the same
  letter.
\<close>

lemma same_letter_below_256:
  assumes "a < 256" "b < 256"
  shows "toLowerCase_unit a = toLowerCase_unit b \<longleftrightarrow> same_letter a b"
  using assms unfolding toLowerCase_unit_def same_letter_def capital_small_def
  by (auto split: if_splits)

lemma take_map_ci_prefix:
  "\<forall>u\<in>set q \<union> set s. u < 256 \<Longrightarrow>
   take (length q) (map toLowerCase_unit s) = map toLowerCase_unit q \<longleftrightarrow> ci_prefix q s"
proof (induction q s rule: ci_prefix.induct)
  case (1 s)
  show ?case by simp
next
  case (2 a q)
  show ?case by simp
next
  case (3 a q b s)
  from "3.prems" have "toLowerCase_unit b = toLowerCase_unit a \<longleftrightarrow> same_letter a b"
    using same_letter_below_256 [of a b] by auto
  moreover from "3.prems" have "take (length q) (map toLowerCase_unit s) = map toLowerCase_unit q
      \<longleftrightarrow> ci_prefix q s"
    by (intro "3.IH") auto
  ultimately show ?case
    by simp
qed

lemma includes_map_ci_substring:
  "\<forall>u\<in>set q \<union> set s. u < 256 \<Longrightarrow>
   includes_str (map toLowerCase_unit s) (map toLowerCase_unit q) \<longleftrightarrow> ci_substring q s"
proof (induction s)
  case Nil
  show ?case by simp
next
  case (Cons b s)
  from Cons.prems have "take (length q) (map toLowerCase_unit (b # s)) = map toLowerCase_unit q
      \<longleftrightarrow> ci_prefix q (b # s)"
    by (intro take_map_ci_prefix) auto
  moreover from Cons.prems have "includes_str (map toLowerCase_unit s) (map toLowerCase_unit q)
      \<longleftrightarrow> ci_substring q s"
    by (intro Cons.IH) auto
  ultimately show ?case
    by simp
qed

lemma includes_toLowerCase_below_256:
  assumes "\<forall>u\<in>set q. u < 256" "\<forall>u\<in>set s. u < 256"
  shows "includes_str (toLowerCase s) (toLowerCase q) \<longleftrightarrow> ci_substring q s"
  using assms includes_map_ci_substring [of q s]
  by (simp add: toLowerCase_below_256 ball_Un)

lemma units_below_256: "\<forall>u\<in>set (units s). u < 256"
proof
  fix u assume "u \<in> set (units s)"
  then obtain c where "u = of_char c"
    by (auto simp: units_def)
  moreover have "(of_char c :: nat) mod 256 = of_char c"
    by simp
  ultimately show "u < 256"
    by (metis mod_less_divisor zero_less_numeral)
qed

lemma includes_units:
  "includes_str (toLowerCase (units s)) (toLowerCase (units q)) \<longleftrightarrow> ci_substring (units q) (units s)"
  by (rule includes_toLowerCase_below_256) (rule units_below_256)+

lemma renderPostsList_filter_below_256:
  assumes "\<forall>u\<in>set q \<union> set t \<union> set c \<union> \<Union> (set ` set ts). u < 256"
  shows "renderPostsList_filter q t c ts \<longleftrightarrow>
    ci_substring q t \<or> ci_substring q c \<or> (\<exists>tag\<in>set ts. ci_substring q tag)"
proof -
  from assms have q: "\<forall>u\<in>set q. u < 256" and t: "\<forall>u\<in>set t. u < 256"
    and c: "\<forall>u\<in>set c. u < 256" and ts: "\<forall>tag\<in>set ts. \<forall>u\<in>set tag. u < 256"
    by auto
  from ts have "(\<exists>tag\<in>set ts. includes_str (toLowerCase tag) (toLowerCase q))
      \<longleftrightarrow> (\<exists>tag\<in>set ts. ci_substring q tag)"
    using includes_toLowerCase_below_256 [OF q] by blast
  then show ?thesis
    by (simp add: renderPostsList_filter_def list_ex_iff includes_toLowerCase_below_256 [OF q t]
        includes_toLowerCase_below_256 [OF q c])
qed

lemma renderPostsList_filter_units:
  "renderPostsList_filter (units q) (units t) (units c) (map units ts) \<longleftrightarrow>
     ci_substring (units q) (units t) \<or> ci_substring (units q) (units c) \<or>
     (\<exists>tag\<in>set ts. ci_substring (units q) (units tag))"
  by (simp add: renderPostsList_filter_def list_ex_iff includes_units)

text \<open>
  C9, as the code has it. \<open>getFilteredTodos\<close> reads the manager and gives, for the filter
  \<open>pending\<close>, the todos that are not completed, for \<open>completed\<close> those that are, and for
  \<open>all\<close> every todo, always in the order of the collection; \<open>render\<close> puts that list on
  the page and changes nothing else of the manager. \<open>renderPostsList\<close> changes nothing of
  the manager but the list on the page, and a post is on it exactly when the query is empty
  or its lower case, as \<open>toLowerCase\<close> gives it, occurs in the lower case of the title, of
  the content or of some tag. When query, title, content and tags have only code units
  below 256, as the strings of the managers of this model have, that is exactly when the
  query is empty or a case-insensitive substring of the title, of the content or of some
  tag.
\<close>

theorem projectors_compute_the_subsets:
  "(currentFilter m = ''pending'' \<longrightarrow> getFilteredTodos m = filter (\<lambda>t. \<not> completed t) (todos m)) \<and>
   (currentFilter m = ''completed'' \<longrightarrow> getFilteredTodos m = filter completed (todos m)) \<and>
   (currentFilter m = ''all'' \<longrightarrow> getFilteredTodos m = todos m) \<and>
   subseq (getFilteredTodos m) (todos m) \<and>
   render m = m\<lparr>todoList := getFilteredTodos m\<rparr> \<and>
   renderPostsList q b = b\<lparr>postsList :=
     filter (\<lambda>p. q = [] \<or> ci_substring (units q) (units (title p)) \<or>
                 ci_substring (units q) (units (content p)) \<or>
                 (\<exists>tag\<in>set (tags p). ci_substring (units q) (units tag))) (posts b)\<rparr> \<and>
   (renderPostsList_filter sq t c ts \<longleftrightarrow>
      sublist (toLowerCase sq) (toLowerCase t) \<or> sublist (toLowerCase sq) (toLowerCase c) \<or>
      (\<exists>tag\<in>set ts. sublist (toLowerCase sq) (toLowerCase tag))) \<and>
   ((\<forall>u\<in>set sq \<union> set t \<union> set c \<union> \<Union> (set ` set ts). u < 256) \<longrightarrow>
      (renderPostsList_filter sq t c ts \<longleftrightarrow>
         ci_substring sq t \<or> ci_substring sq c \<or> (\<exists>tag\<in>set ts. ci_substring sq tag)))"
proof -
  have todo: "(currentFilter m = ''pending'' \<longrightarrow> getFilteredTodos m = filter (\<lambda>t. \<not> completed t) (todos m)) \<and>
   (currentFilter m = ''completed'' \<longrightarrow> getFilteredTodos m = filter completed (todos m)) \<and>
   (currentFilter m = ''all'' \<longrightarrow> getFilteredTodos m = todos m) \<and>
   subseq (getFilteredTodos m) (todos m) \<and>
   render m = m\<lparr>todoList := getFilteredTodos m\<rparr>"
    by (simp add: getFilteredTodos_def render_def)
  have post: "renderPostsList q b = b\<lparr>postsList :=
     filter (\<lambda>p. q = [] \<or> ci_substring (units q) (units (title p)) \<or>
                 ci_substring (units q) (units (content p)) \<or>
                 (\<exists>tag\<in>set (tags p). ci_substring (units q) (units tag))) (posts b)\<rparr>"
    by (simp add: renderPostsList_def renderPostsList_filter_units)
  have wide: "renderPostsList_filter sq t c ts \<longleftrightarrow>
      sublist (toLowerCase sq) (toLowerCase t) \<or> sublist (toLowerCase sq) (toLowerCase c) \<or>
      (\<exists>tag\<in>set ts. sublist (toLowerCase sq) (toLowerCase tag))"
    by (simp add: renderPostsList_filter_def list_ex_iff includes_str_sublist)
  from todo post wide renderPostsList_filter_below_256 [of sq t c ts] show ?thesis
    by blast
qed

lemma ci_substring_examples:
  "ci_substring (units ''BODY'') (units ''Body'')" "\<not> ci_substring (units ''BODY'') (units ''Hi'')"
  "\<not> ci_substring (units ''BODY'') (units ''tag1'')"
  "ci_substring (units ''TAG'') (units ''tag1'')" "\<not> ci_substring (units ''TAG'') (units ''Hi'')"
  "\<not> ci_substring (units ''TAG'') (units ''Body'')" "\<not> ci_substring (units ''zzz'') (units ''Hi'')"
  "\<not> ci_substring (units ''zzz'') (units ''Body'')" "\<not> ci_substring (units ''zzz'') (units ''tag1'')"
  by (simp_all add: units_def same_letter_def capital_small_def)

text \<open>
  The theorem at the completed todo of the scenario under each filter; at the post of the
  scenario with a query that matches the content, one that matches a tag, one that
  matches nothing and the empty query; and at the code units of that query and post.
\<close>

theorem projectors_compute_the_subsets_witness:
  "currentFilter (snd (setFilter ''pending'' done_todo)) = ''pending'' \<and>
   getFilteredTodos (snd (setFilter ''pending'' done_todo)) = [] \<and>
   currentFilter (snd (setFilter ''completed'' done_todo)) = ''completed'' \<and>
   getFilteredTodos (snd (setFilter ''completed'' done_todo)) = todos done_todo \<and>
   currentFilter done_todo = ''all'' \<and>
   getFilteredTodos done_todo = todos done_todo \<and>
   postsList (renderPostsList ''BODY'' one_post) = posts one_post \<and>
   postsList (renderPostsList ''TAG'' one_post) = posts one_post \<and>
   postsList (renderPostsList ''zzz'' one_post) = [] \<and>
   postsList (renderPostsList [] one_post) = posts one_post \<and>
   list_all (\<lambda>u. u < 256) (units ''BODY'' @ units ''Hi'' @ units ''Body'' @ units ''tag1'') \<and>
   renderPostsList_filter (units ''BODY'') (units ''Hi'') (units ''Body'') [units ''tag1''] \<and>
   \<not> renderPostsList_filter (units ''zzz'') (units ''Hi'') (units ''Body'') [units ''tag1'']"
proof -
  note pending = projectors_compute_the_subsets [of "snd (setFilter ''pending'' done_todo)"
      "''BODY''" one_post "units ''BODY''" "units ''Hi''" "units ''Body''" "[units ''tag1'']"]
  note completed = projectors_compute_the_subsets [of "snd (setFilter ''completed'' done_todo)"
      "''TAG''" one_post "units ''zzz''" "units ''Hi''" "units ''Body''" "[units ''tag1'']"]
  note all = projectors_compute_the_subsets [of done_todo "''zzz''" one_post
      "units ''BODY''" "units ''Hi''" "units ''Body''" "[units ''tag1'']"]
  note empty = projectors_compute_the_subsets [of done_todo "[]" one_post
      "units ''BODY''" "units ''Hi''" "units ''Body''" "[units ''tag1'']"]
  have p: "currentFilter (snd (setFilter ''pending'' done_todo)) = ''pending''"
    and c: "currentFilter (snd (setFilter ''completed'' done_todo)) = ''completed''"
    and a: "currentFilter done_todo = ''all''"
    by (simp_all add: setFilter_def render_def done_todo_eq)
  from pending [THEN conjunct1] p
  have 1: "getFilteredTodos (snd (setFilter ''pending'' done_todo)) = []"
    by (simp add: setFilter_def render_def done_todo_eq)
  from completed [THEN conjunct2, THEN conjunct1] c
  have 2: "getFilteredTodos (snd (setFilter ''completed'' done_todo)) = todos done_todo"
    by (simp add: setFilter_def render_def done_todo_eq)
  from all [THEN conjunct2, THEN conjunct2, THEN conjunct1] a
  have 3: "getFilteredTodos done_todo = todos done_todo"
    by simp
  note list = conjunct2 [THEN conjunct2, THEN conjunct2, THEN conjunct2, THEN conjunct2,
      THEN conjunct1]
  have 4: "postsList (renderPostsList ''BODY'' one_post) = posts one_post"
    by (subst pending [THEN list]) (simp add: one_post_eq ci_substring_examples)
  have 5: "postsList (renderPostsList ''TAG'' one_post) = posts one_post"
    by (subst completed [THEN list]) (simp add: one_post_eq ci_substring_examples)
  have 6: "postsList (renderPostsList ''zzz'' one_post) = []"
    by (subst all [THEN list]) (simp add: one_post_eq ci_substring_examples)
  have 7: "postsList (renderPostsList [] one_post) = posts one_post"
    by (subst empty [THEN list]) simp
  note below = conjunct2 [THEN conjunct2, THEN conjunct2, THEN conjunct2, THEN conjunct2,
      THEN conjunct2, THEN conjunct2]
  have 8: "list_all (\<lambda>u. u < 256) (units ''BODY'' @ units ''Hi'' @ units ''Body'' @ units ''tag1'')"
    and "list_all (\<lambda>u. u < 256) (units ''zzz'')"
    by (simp_all add: units_def)
  then have small: "\<forall>u\<in>set (units ''BODY'') \<union> set (units ''Hi'') \<union> set (units ''Body'') \<union>
        \<Union> (set ` set [units ''tag1'']). u < 256"
    "\<forall>u\<in>set (units ''zzz'') \<union> set (units ''Hi'') \<union> set (units ''Body'') \<union>
        \<Union> (set ` set [units ''tag1'']). u < 256"
    by (auto simp: list_all_iff)
  from pending [THEN below] small(1)
  have 9: "renderPostsList_filter (units ''BODY'') (units ''Hi'') (units ''Body'') [units ''tag1'']"
    by (simp add: ci_substring_examples)
  from completed [THEN below] small(2)
  have 10: "\<not> renderPostsList_filter (units ''zzz'') (units ''Hi'') (units ''Body'') [units ''tag1'']"
    by (simp add: ci_substring_examples)
  from p c a 1 2 3 4 5 6 7 8 9 10 show ?thesis
    by blast
qed

text \<open>
  C9 as it is stated fails where \<open>toLowerCase\<close> looks at the place of a letter. The title
  is the Greek word of the code units 927, 916, 927, 931 (capital omicron, delta, omicron,
  sigma) and the query is the capital sigma 931 alone: the query is a substring of the
  title as it stands. The lower case of the title ends in the final sigma 962, the lower
  case of the query is the sigma 963, and the post is not on the list.
\<close>

lemma toLowerCase_odos: "toLowerCase [927, 916, 927, 931] = [959, 948, 959, 962]"
  by (simp add: toLowerCase_def Final_Sigma_def caseIgnorable_def cased_def toLowerCase_unit_def)

lemma toLowerCase_sigma: "toLowerCase [931] = [963]"
  by (simp add: toLowerCase_def Final_Sigma_def)

theorem capital_sigma_not_found_at_word_end:
  "sublist [931 :: nat] [927, 916, 927, 931] \<and>
   ci_substring [931] [927, 916, 927, 931] \<and>
   \<not> renderPostsList_filter [931] [927, 916, 927, 931] (units ''Body'') []"
proof -
  have "sublist [931 :: nat] ([927, 916, 927] @ [931] @ [])"
    by (rule sublist_appendI)
  moreover have "ci_substring [931] [927, 916, 927, 931]"
    by (simp add: same_letter_def capital_small_def)
  moreover have "toLowerCase (units ''Body'') = [98, 111, 100, 121]"
    by (simp add: units_def toLowerCase_def toLowerCase_unit_def)
  then have "\<not> renderPostsList_filter [931] [927, 916, 927, 931] (units ''Body'') []"
    by (simp add: renderPostsList_filter_def toLowerCase_odos toLowerCase_sigma)
  ultimately show ?thesis
    by simp
qed

end
